theory Spec2Isabelle
  imports Complex_Main "HOL-Library.AList" "HOL-Library.Sublist"
begin

section \<open>Python values used by the identification module\<close>

subsection \<open>Strings\<close>

text \<open>
  A Python \<open>str\<close> is modelled as a \<open>string\<close> whose characters are the code points
  below 256. On these code points \<open>str.isspace\<close> holds for 9 to 13, 28 to 32, 133 and
  160, and \<open>str.lower\<close> moves \<open>A\<close> to \<open>Z\<close> and the Latin-1 capitals 192 to 222
  (except the multiplication sign 215) up by 32.
\<close>

definition py_isspace :: "char \<Rightarrow> bool" where
  "py_isspace c =
     (let n = (of_char c :: nat)
      in (9 \<le> n \<and> n \<le> 13) \<or> (28 \<le> n \<and> n \<le> 32) \<or> n = 133 \<or> n = 160)"

definition py_isupper :: "char \<Rightarrow> bool" where
  "py_isupper c =
     (let n = (of_char c :: nat)
      in (65 \<le> n \<and> n \<le> 90) \<or> (192 \<le> n \<and> n \<le> 222 \<and> n \<noteq> 215))"

definition lower_char :: "char \<Rightarrow> char" where
  "lower_char c = (if py_isupper c then char_of ((of_char c :: nat) + 32) else c)"

definition py_lower :: "string \<Rightarrow> string" where
  "py_lower s = map lower_char s"

definition py_lstrip :: "string \<Rightarrow> string" where
  "py_lstrip s = dropWhile py_isspace s"

definition py_rstrip :: "string \<Rightarrow> string" where
  "py_rstrip s = rev (dropWhile py_isspace (rev s))"

definition py_strip :: "string \<Rightarrow> string" where
  "py_strip s = py_rstrip (py_lstrip s)"

definition startswith :: "string \<Rightarrow> string \<Rightarrow> bool" where
  "startswith s p = (take (length p) s = p)"

definition endswith :: "string \<Rightarrow> string \<Rightarrow> bool" where
  "endswith s p = (length p \<le> length s \<and> drop (length s - length p) s = p)"

text \<open>\<open>x or d\<close> for \<open>x\<close> a \<open>str\<close> or \<open>None\<close>: \<open>None\<close> and the empty string are falsy.\<close>

definition truthy :: "string option \<Rightarrow> bool" where
  "truthy x = (case x of None \<Rightarrow> False | Some s \<Rightarrow> s \<noteq> [])"

definition or_else :: "string option \<Rightarrow> string \<Rightarrow> string" where
  "or_else x d = (case x of None \<Rightarrow> d | Some s \<Rightarrow> if s = [] then d else s)"

subsection \<open>Exceptions\<close>

text \<open>
  The exceptions the module raises or lets through. The module raises \<open>RuntimeError\<close>
  for a missing credential and \<open>ValueError\<close> for a reply it cannot use; the
  specification calls them \<open>ConfigurationError\<close> and \<open>ResponseFormatError\<close>.
  \<open>OSError\<close> comes from reading the image file and \<open>APIError\<close> from the remote call.
\<close>

datatype error =
    RuntimeError string
  | ValueError string
  | KeyError string
  | OSError string
  | APIError string

section \<open>The context hinter\<close>

definition hint_pond :: string where
  "hint_pond = ''Assume a pond/wet mount sample. Consider common freshwater microorganisms '' @
     ''(protozoa, rotifers, algae/diatoms, nematodes, small crustaceans, etc.).''"

definition hint_soil :: string where
  "hint_soil = ''Assume a soil sample. Consider soil organisms and structures '' @
     ''(mites, nematodes, fungal hyphae/spores, pollen, plant fibers), and mineral grains.''"

definition hint_tissue :: string where
  "hint_tissue = ''Assume a tissue/biological smear. Consider common cell types and structures '' @
     ''(epithelial cells, red/white blood cells if applicable, parasites/eggs, bacteria patterns if visible).''"

definition hint_crystal :: string where
  "hint_crystal = ''Assume a crystal/mineral sample. Consider crystal habit, cleavage, inclusions, and '' @
     ''common salts/minerals that appear under a microscope.''"

definition hint_other :: string where
  "hint_other =
     ''No specific sample context; identify the most likely subject and clearly note uncertainty.''"

definition hints :: "(string \<times> string) list" where
  "hints =
     [(''pond'', hint_pond), (''soil'', hint_soil), (''tissue'', hint_tissue),
      (''crystal'', hint_crystal), (''other'', hint_other)]"

text \<open>\<open>d[k]\<close> raises \<open>KeyError\<close> on a missing key; \<open>d.get(k, default)\<close> does not.\<close>

definition getitem :: "(string \<times> 'v) list \<Rightarrow> string \<Rightarrow> error + 'v" where
  "getitem d k = (case map_of d k of None \<Rightarrow> Inl (KeyError k) | Some v \<Rightarrow> Inr v)"

definition get_default :: "(string \<times> 'v) list \<Rightarrow> string \<Rightarrow> 'v \<Rightarrow> 'v" where
  "get_default d k dflt = (case map_of d k of None \<Rightarrow> dflt | Some v \<Rightarrow> v)"

text \<open>
  \<open>_context_hint\<close>: the argument \<open>hints["other"]\<close> of \<open>get\<close> is evaluated before the
  call, so a \<open>KeyError\<close> there would be the function's only way to fail.
\<close>

definition context_hint :: "string option \<Rightarrow> error + string" where
  "context_hint sample_type =
     (let st = py_lower (py_strip (or_else sample_type ''Other''))
      in case getitem hints ''other'' of
           Inl e \<Rightarrow> Inl e
         | Inr other \<Rightarrow> Inr (get_default hints st other))"

section \<open>JSON values and dictionaries\<close>

text \<open>
  The values \<open>json.loads\<close> returns: \<open>None\<close>, \<open>bool\<close>, \<open>int\<close> (unbounded),
  \<open>float\<close>, \<open>str\<close>, \<open>list\<close> and \<open>dict\<close>. A finite float is the rational number it
  denotes. A \<open>dict\<close> is an association list in insertion order, read with \<open>map_of\<close>.
\<close>

datatype pyfloat = Finite rat | PosInf | NegInf | NaN

datatype json =
    JNull
  | JBool bool
  | JInt int
  | JFloat pyfloat
  | JStr string
  | JArr "json list"
  | JObj "(string \<times> json) list"

type_synonym dict = "(string \<times> json) list"

definition setdefault :: "dict \<Rightarrow> string \<Rightarrow> json \<Rightarrow> dict" where
  "setdefault d k v = (case map_of d k of None \<Rightarrow> d @ [(k, v)] | Some _ \<Rightarrow> d)"

definition setitem :: "dict \<Rightarrow> string \<Rightarrow> json \<Rightarrow> dict" where
  "setitem d k v = AList.update k v d"

text \<open>
  The builtin \<open>int(x)\<close>, \<open>None\<close> where it raises: a float is truncated toward zero
  (infinities and NaN raise), a bool is 0 or 1, a string is parsed by the builtin's own
  rules (the parameter \<open>int_of_str\<close>), and \<open>None\<close>, lists and dicts raise \<open>TypeError\<close>.
\<close>

fun py_int :: "(string \<Rightarrow> int option) \<Rightarrow> json \<Rightarrow> int option" where
  "py_int int_of_str JNull = None"
| "py_int int_of_str (JBool b) = Some (if b then 1 else 0)"
| "py_int int_of_str (JInt n) = Some n"
| "py_int int_of_str (JFloat (Finite q)) = Some (if 0 \<le> q then \<lfloor>q\<rfloor> else \<lceil>q\<rceil>)"
| "py_int int_of_str (JFloat PosInf) = None"
| "py_int int_of_str (JFloat NegInf) = None"
| "py_int int_of_str (JFloat NaN) = None"
| "py_int int_of_str (JStr s) = int_of_str s"
| "py_int int_of_str (JArr xs) = None"
| "py_int int_of_str (JObj d) = None"

section \<open>The identification module\<close>

subsection \<open>What the module calls\<close>

text \<open>
  The process environment, the file system, the remote service and the library functions
  the module calls are the fields of a \<open>world\<close>. \<open>responses_create\<close> is
  \<open>client.responses.create\<close> followed by reading \<open>output_text\<close> (\<open>None\<close> when the
  attribute is missing or \<open>None\<close>); \<open>json_loads\<close> is \<open>None\<close> where \<open>json.loads\<close>
  raises. The module keeps one global, the client it has built.
\<close>

datatype openai_client = OpenAI (key_of: string)

record world =
  environ :: "string \<Rightarrow> string option"
  splitext :: "string \<Rightarrow> string \<times> string"
  read_bytes :: "string \<Rightarrow> error + string"
  b64encode :: "string \<Rightarrow> string"
  responses_create :: "openai_client \<Rightarrow> string \<Rightarrow> string \<Rightarrow> string \<Rightarrow> error + string option"
  json_loads :: "string \<Rightarrow> json option"
  int_of_str :: "string \<Rightarrow> int option"

record globals =
  client :: "openai_client option"

subsection \<open>Credential resolution\<close>

definition get_openai_api_key :: "world \<Rightarrow> error + string" where
  "get_openai_api_key w =
     (case environ w ''OPENAI_API_KEY'' of
        None \<Rightarrow>
          Inl (RuntimeError
            (''OPENAI_API_KEY not set. '' @ ''Set it in your shell or launcher script.''))
      | Some key \<Rightarrow>
          if key = [] then
            Inl (RuntimeError
              (''OPENAI_API_KEY not set. '' @ ''Set it in your shell or launcher script.''))
          else Inr key)"

definition get_client :: "world \<Rightarrow> globals \<Rightarrow> (error + openai_client) \<times> globals" where
  "get_client w g =
     (case client g of
        Some c \<Rightarrow> (Inr c, g)
      | None \<Rightarrow>
          (case (case environ w ''OPENAI_API_KEY'' of
                   None \<Rightarrow> get_openai_api_key w
                 | Some v \<Rightarrow> if v = [] then get_openai_api_key w else Inr v) of
             Inl e \<Rightarrow> (Inl e, g)
           | Inr api_key \<Rightarrow>
               if api_key = [] then
                 (Inl (RuntimeError
                    ''OpenAI API key not set. Set OPENAI_API_KEY (dev) or add a key in the app.''),
                  g)
               else (Inr (OpenAI api_key), g\<lparr>client := Some (OpenAI api_key)\<rparr>)))"

definition MODEL :: "world \<Rightarrow> string" where
  "MODEL w = (case environ w ''OPENAI_MODEL'' of None \<Rightarrow> ''gpt-4.1-mini'' | Some m \<Rightarrow> m)"

subsection \<open>Image encoder\<close>

definition b64_data_url :: "world \<Rightarrow> string \<Rightarrow> error + string" where
  "b64_data_url w image_path =
     (let ext = py_lower (snd (splitext w image_path));
          mime = (if ext = ''.png'' then ''image/png'' else ''image/jpeg'')
      in case read_bytes w image_path of
           Inl e \<Rightarrow> Inl e
         | Inr bytes \<Rightarrow> Inr (''data:'' @ mime @ '';base64,'' @ b64encode w bytes))"

subsection \<open>Fence stripping\<close>

definition strip_code_fence :: "string option \<Rightarrow> string" where
  "strip_code_fence text =
     (let t = py_strip (or_else text [])
      in if startswith t ''```'' then
           let t1 = (if CHR 0x0A \<in> set t then tl (dropWhile (\<lambda>c. c \<noteq> CHR 0x0A) t) else []);
               t2 = (if endswith (py_rstrip t1) ''```''
                     then take (length (py_rstrip t1) - 3) (py_rstrip t1) else t1);
               t3 = py_strip t2
           in if startswith (py_lower t3) ''json'' then py_lstrip (drop 4 t3) else t3
         else t)"

subsection \<open>Identification\<close>

definition prompt :: "string \<Rightarrow> string" where
  "prompt context =
     ''You are helping identify microorganisms from microscope photos.\<newline>'' @
     ''Context: '' @ context @ ''\<newline>\<newline>'' @
     ''Return ONLY valid JSON with exactly these keys:\<newline>'' @
     ''best_guess_name (string), confidence (integer 0-100), '' @
     ''description (string), features_used (string).\<newline>'' @
     ''Be cautious: if unsure, lower confidence.\<newline>''"

text \<open>
  \<open>identify_image\<close> in two halves. The first (up to the reading of \<open>output_text\<close>)
  builds the client, the data URL and the prompt and calls the remote service; its result
  is the reply text, \<open>getattr(resp, "output_text", "") or ""\<close>.
\<close>

definition identify_image_request ::
  "world \<Rightarrow> globals \<Rightarrow> string \<Rightarrow> string option \<Rightarrow> (error + string) \<times> globals" where
  "identify_image_request w g image_path sample_type =
     (case get_client w g of
        (Inl e, g') \<Rightarrow> (Inl e, g')
      | (Inr c, g') \<Rightarrow>
          (case b64_data_url w image_path of
             Inl e \<Rightarrow> (Inl e, g')
           | Inr data_url \<Rightarrow>
               (case context_hint sample_type of
                  Inl e \<Rightarrow> (Inl e, g')
                | Inr context \<Rightarrow>
                    (case responses_create w c (MODEL w) (prompt context) data_url of
                       Inl e \<Rightarrow> (Inl e, g')
                     | Inr output_text \<Rightarrow> (Inr (or_else output_text []), g')))))"

text \<open>
  The second half turns the reply text into the result: fence stripping, decoding, the
  four \<open>setdefault\<close> calls, \<open>int\<close> under \<open>try\<close> (any exception there, also from the
  lookup, stores 0), and the clamp of the integer \<open>n\<close> just stored.
\<close>

definition identify_image_result :: "world \<Rightarrow> string \<Rightarrow> error + dict" where
  "identify_image_result w reply =
     (let text = strip_code_fence (Some reply)
      in case json_loads w text of
           None \<Rightarrow> Inl (ValueError (''Model did not return JSON. Got:\<newline>'' @ text))
         | Some (JObj d) \<Rightarrow>
             (let d1 = setdefault d ''best_guess_name'' (JStr ''Unknown'');
                  d2 = setdefault d1 ''confidence'' (JInt 0);
                  d3 = setdefault d2 ''description'' (JStr []);
                  d4 = setdefault d3 ''features_used'' (JStr []);
                  n = (case map_of d4 ''confidence'' of
                         None \<Rightarrow> 0
                       | Some v \<Rightarrow> (case py_int (int_of_str w) v of None \<Rightarrow> 0 | Some i \<Rightarrow> i));
                  d5 = setitem d4 ''confidence'' (JInt n)
              in Inr (setitem d5 ''confidence'' (JInt (max 0 (min 100 n)))))
         | Some _ \<Rightarrow> Inl (ValueError (''Model returned non-dict JSON. Got:\<newline>'' @ text)))"

definition identify_image ::
  "world \<Rightarrow> globals \<Rightarrow> string \<Rightarrow> string option \<Rightarrow> (error + dict) \<times> globals" where
  "identify_image w g image_path sample_type =
     (case identify_image_request w g image_path sample_type of
        (Inl e, g') \<Rightarrow> (Inl e, g')
      | (Inr reply, g') \<Rightarrow> (identify_image_result w reply, g'))"

section \<open>The capture action of the main window\<close>

text \<open>
  The fields of \<open>MainWindow\<close> that \<open>on_capture\<close> reads or writes; the widgets are
  their visible state. A frame is a value of type \<open>'f\<close>. The disk maps a path to what
  was written there, and \<open>tmp\<close> is the outcome of \<open>tempfile.NamedTemporaryFile\<close>.
  The dash of the labels is written as its three UTF-8 bytes.
\<close>

record 'f main_window =
  camera_enabled :: bool
  last_frame :: "'f option"
  temp_files :: "string list"
  current_image_path :: "string option"
  loaded_path_label :: string
  identify_btn_enabled :: bool
  result_label :: string
  conf_label :: string
  notes_text :: string
  status_message :: string

definition em_dash :: string where
  "em_dash = [CHR 0xE2, CHR 0x80, CHR 0x94]"

definition on_capture ::
  "error + string \<Rightarrow> 'f main_window \<times> (string \<Rightarrow> 'f option) \<Rightarrow>
     error + 'f main_window \<times> (string \<Rightarrow> 'f option)" where
  "on_capture tmp s =
     (case s of (self, disk) \<Rightarrow>
        if \<not> camera_enabled self then
          Inr (self\<lparr>status_message := ''Camera disabled.''\<rparr>, disk)
        else
          (case last_frame self of
             None \<Rightarrow> Inr (self\<lparr>status_message := ''No camera frame yet.''\<rparr>, disk)
           | Some frame \<Rightarrow>
               (case tmp of
                  Inl e \<Rightarrow> Inl e
                | Inr tmp_path \<Rightarrow>
                    Inr (self\<lparr>temp_files := temp_files self @ [tmp_path],
                              current_image_path := Some tmp_path,
                              loaded_path_label := tmp_path,
                              identify_btn_enabled := True,
                              result_label := em_dash,
                              conf_label := ''Confidence: '' @ em_dash,
                              notes_text := [],
                              status_message := ''Captured frame. Ready to identify.''\<rparr>,
                         disk(tmp_path \<mapsto> frame)))))"

section \<open>A sample world\<close>

text \<open>
  Concrete replies and a concrete world for running the model. \<open>sample_loads\<close> holds
  what \<open>json.loads\<close> returns on the sample texts and is \<open>None\<close> on every other text,
  so it is run only on those texts and on texts that are not JSON. In the sample world the
  credential is set, the image \<open>frame.jpg\<close> is readable and the remote service answers
  with the given reply.
\<close>

definition text_rotifer :: string where
  \<open>text_rotifer = ''{"best_guess_name": "Rotifer", "confidence": 150}''\<close>

definition reply_rotifer :: string where
  \<open>reply_rotifer =
     ''```json\<newline>{"best_guess_name": "Rotifer", "confidence": 150}\<newline>```''\<close>

definition text_paramecium :: string where
  \<open>text_paramecium =
     ''{"best_guess_name": "Paramecium", "confidence": 85.5, '' @
     ''"description": "ciliate", "features_used": "cilia"}''\<close>

definition text_amoeba :: string where
  \<open>text_amoeba = ''{"best_guess_name": "Amoeba", "confidence": 42.5}''\<close>

definition text_negative :: string where
  \<open>text_negative = ''{"confidence": -5}''\<close>

definition text_ninety :: string where
  \<open>text_ninety = ''{"confidence": 90}''\<close>

definition text_diatom :: string where
  \<open>text_diatom = ''{"best_guess_name": "Diatom", "features_used": null}''\<close>

definition text_list :: string where
  \<open>text_list = ''["Rotifer", 90]''\<close>

definition reply_ninety_fenced :: string where
  \<open>reply_ninety_fenced = ''```json\<newline>{"confidence": 90}\<newline>```\<newline>''\<close>

definition reply_ninety_inline :: string where
  \<open>reply_ninety_inline = ''```json {"confidence": 90} ```''\<close>

definition reply_refusal :: string where
  \<open>reply_refusal = ''```\<newline>I cannot identify this image.\<newline>```''\<close>

definition sample_loads :: "string \<Rightarrow> json option" where
  "sample_loads =
     map_of
       [(text_rotifer,
           JObj [(''best_guess_name'', JStr ''Rotifer''), (''confidence'', JInt 150)]),
        (text_paramecium,
           JObj [(''best_guess_name'', JStr ''Paramecium''),
                 (''confidence'', JFloat (Finite (171 / 2))),
                 (''description'', JStr ''ciliate''),
                 (''features_used'', JStr ''cilia'')]),
        (text_amoeba,
           JObj [(''best_guess_name'', JStr ''Amoeba''),
                 (''confidence'', JFloat (Finite (85 / 2)))]),
        (text_negative, JObj [(''confidence'', JInt (- 5))]),
        (text_ninety, JObj [(''confidence'', JInt 90)]),
        (text_diatom, JObj [(''best_guess_name'', JStr ''Diatom''), (''features_used'', JNull)]),
        (text_list, JArr [JStr ''Rotifer'', JInt 90])]"

definition sample_int_of_str :: "string \<Rightarrow> int option" where
  "sample_int_of_str = map_of [(''85'', 85)]"

definition sample_world :: "string \<Rightarrow> world" where
  "sample_world reply =
     \<lparr>environ = [''OPENAI_API_KEY'' \<mapsto> ''sk-test''],
      splitext = (\<lambda>p. if p = ''frame.jpg'' then (''frame'', ''.jpg'') else (p, [])),
      read_bytes = (\<lambda>p. if p = ''frame.jpg'' then Inr ''JFIF'' else Inl (OSError p)),
      b64encode = (\<lambda>b. if b = ''JFIF'' then ''SkZJRg=='' else []),
      responses_create = (\<lambda>c m p u. Inr (Some reply)),
      json_loads = sample_loads,
      int_of_str = sample_int_of_str\<rparr>"

definition unset_world :: world where
  "unset_world = (sample_world [])\<lparr>environ := Map.empty\<rparr>"

definition fresh :: globals where
  "fresh = \<lparr>client = None\<rparr>"

definition ready :: globals where
  "ready = \<lparr>client = Some (OpenAI ''sk-test'')\<rparr>"

definition empty_disk :: "string \<Rightarrow> nat option" where
  "empty_disk = Map.empty"

definition idle_window :: "bool \<Rightarrow> nat main_window" where
  "idle_window enabled =
     \<lparr>camera_enabled = enabled,
      last_frame = None,
      temp_files = [],
      current_image_path = None,
      loaded_path_label = [],
      identify_btn_enabled = False,
      result_label = em_dash,
      conf_label = ''Confidence: '' @ em_dash,
      notes_text = [],
      status_message = ''Ready''\<rparr>"

section \<open>Properties of the string functions\<close>

lemma py_isspace_lower_char: "py_isspace (lower_char c) = py_isspace c"
  by (auto simp: py_isspace_def lower_char_def py_isupper_def Let_def)

lemma py_lstrip_lower: "py_lstrip (py_lower s) = py_lower (py_lstrip s)"
  by (induction s) (simp_all add: py_lstrip_def py_lower_def py_isspace_lower_char)

lemma py_rstrip_lower: "py_rstrip (py_lower s) = py_lower (py_rstrip s)"
proof -
  have "dropWhile py_isspace (map lower_char xs) = map lower_char (dropWhile py_isspace xs)"
    for xs
    by (induction xs) (simp_all add: py_isspace_lower_char)
  then show ?thesis
    by (simp add: py_rstrip_def py_lower_def rev_map)
qed

lemma py_strip_lower: "py_strip (py_lower s) = py_lower (py_strip s)"
  by (simp add: py_strip_def py_lstrip_lower py_rstrip_lower)

lemma py_lstrip_space_append:
  "\<forall>c\<in>set pre. py_isspace c \<Longrightarrow> py_lstrip (pre @ s) = py_lstrip s"
  by (simp add: py_lstrip_def)

lemma py_rstrip_append_space:
  assumes "\<forall>c\<in>set post. py_isspace c"
  shows "py_rstrip (s @ post) = py_rstrip s"
proof -
  have "dropWhile py_isspace (rev post @ rev s) = dropWhile py_isspace (rev s)"
    by (rule dropWhile_append2) (use assms in simp)
  then show ?thesis
    by (simp add: py_rstrip_def)
qed

lemma py_lstrip_append_nonspace:
  "py_lstrip s \<noteq> [] \<Longrightarrow> py_lstrip (s @ t) = py_lstrip s @ t"
proof (induction s)
  case Nil
  then show ?case by (simp add: py_lstrip_def)
next
  case (Cons c s)
  then show ?case by (cases "py_isspace c") (simp_all add: py_lstrip_def)
qed

lemma py_lstrip_all_space: "py_lstrip s = [] \<longleftrightarrow> (\<forall>c\<in>set s. py_isspace c)"
  by (simp add: py_lstrip_def)

lemma py_rstrip_all_space: "py_rstrip s = [] \<longleftrightarrow> (\<forall>c\<in>set s. py_isspace c)"
  by (simp add: py_rstrip_def)

lemma py_strip_all_space: "py_strip s = [] \<longleftrightarrow> (\<forall>c\<in>set s. py_isspace c)"
proof
  assume "py_strip s = []"
  then have "\<forall>c\<in>set (py_lstrip s). py_isspace c"
    by (simp add: py_strip_def py_rstrip_all_space)
  then have "py_lstrip s = []"
    unfolding py_lstrip_def
    by (metis dropWhile_eq_Nil_conv dropWhile_idem)
  then show "\<forall>c\<in>set s. py_isspace c"
    by (simp add: py_lstrip_all_space)
next
  assume "\<forall>c\<in>set s. py_isspace c"
  then have "py_lstrip s = []"
    by (simp add: py_lstrip_all_space)
  then show "py_strip s = []"
    by (simp add: py_strip_def py_rstrip_def)
qed

lemma py_strip_surrounded:
  assumes "\<forall>c\<in>set pre. py_isspace c" and "\<forall>c\<in>set post. py_isspace c"
  shows "py_strip (pre @ s @ post) = py_strip s"
proof (cases "py_lstrip s = []")
  case True
  then have "\<forall>c\<in>set s. py_isspace c"
    by (simp add: py_lstrip_all_space)
  with assms have "\<forall>c\<in>set (pre @ s @ post). py_isspace c"
    by auto
  then have "py_strip (pre @ s @ post) = []"
    by (simp only: py_strip_all_space)
  moreover from \<open>\<forall>c\<in>set s. py_isspace c\<close> have "py_strip s = []"
    by (simp only: py_strip_all_space)
  ultimately show ?thesis by simp
next
  case False
  have "py_lstrip (pre @ s @ post) = py_lstrip (s @ post)"
    using assms(1) by (rule py_lstrip_space_append)
  also have "\<dots> = py_lstrip s @ post"
    using False by (rule py_lstrip_append_nonspace)
  finally show ?thesis
    using assms(2) by (simp add: py_strip_def py_rstrip_append_space)
qed

section \<open>Properties of the context hinter\<close>

lemma getitem_hints_other: "getitem hints ''other'' = Inr hint_other"
  by (simp add: getitem_def hints_def)

lemma context_hint_eq:
  "context_hint sample_type =
     Inr (get_default hints (py_lower (py_strip (or_else sample_type ''Other''))) hint_other)"
  by (simp add: context_hint_def getitem_hints_other)

lemma get_default_hints_cases:
  "get_default hints st hint_other =
     (if st = ''pond'' then hint_pond
      else if st = ''soil'' then hint_soil
      else if st = ''tissue'' then hint_tissue
      else if st = ''crystal'' then hint_crystal
      else hint_other)"
  by (simp add: get_default_def hints_def)

lemma normal_Other: "py_lower (py_strip ''Other'') = ''other''"
  by code_simp

lemma normal_Nil: "py_lower (py_strip []) = []"
  by code_simp

lemma context_hint_Some_eq:
  "context_hint (Some s) = Inr (get_default hints (py_lower (py_strip s)) hint_other)"
proof (cases "s = []")
  case True
  then show ?thesis
    by (simp add: context_hint_eq or_else_def get_default_hints_cases normal_Other normal_Nil)
next
  case False
  then show ?thesis
    by (simp add: context_hint_eq or_else_def)
qed

lemma context_hint_None: "context_hint None = Inr hint_other"
  by (simp add: context_hint_eq or_else_def get_default_hints_cases normal_Other)

text \<open>
  Claim C7. The context hinter cannot fail: for every argument, a string or \<open>None\<close>, it
  returns one of the five fixed hints, and it returns the hint for "other" whenever the
  normalised argument is not one of the five category names.
\<close>

theorem context_hint_total:
  "context_hint sample_type \<in> Inr ` {hint_pond, hint_soil, hint_tissue, hint_crystal, hint_other} \<and>
   (py_lower (py_strip (or_else sample_type ''Other''))
      \<notin> {''pond'', ''soil'', ''tissue'', ''crystal'', ''other''}
    \<longrightarrow> context_hint sample_type = Inr hint_other)"
  by (simp add: context_hint_eq get_default_hints_cases)

theorem context_hint_total_witness:
  "py_lower (py_strip (or_else (Some ''Moss'') ''Other''))
      \<notin> {''pond'', ''soil'', ''tissue'', ''crystal'', ''other''}
   \<and> context_hint (Some ''Moss'') = Inr hint_other"
proof -
  have "py_lower (py_strip (or_else (Some ''Moss'') ''Other'')) = ''moss''"
    by code_simp
  with context_hint_total [of "Some ''Moss''"] show ?thesis
    by simp
qed

text \<open>
  Claim C10. The lookup normalises its argument: whitespace around it and the case of its
  letters do not change the hint, so \<open>Pond\<close>, \<open>pond\<close> and \<open>POND\<close> between spaces all
  give the pond hint; \<open>None\<close> and the empty string are read as \<open>Other\<close> and give the
  hint for "other".
\<close>

theorem context_hint_normalises:
  assumes "\<forall>c\<in>set pre. py_isspace c" and "\<forall>c\<in>set post. py_isspace c"
    and "py_lower s = py_lower s'"
  shows "context_hint (Some (pre @ s @ post)) = context_hint (Some s') \<and>
         context_hint (Some ''Pond'') = Inr hint_pond \<and>
         context_hint (Some ''pond'') = Inr hint_pond \<and>
         context_hint (Some '' POND '') = Inr hint_pond \<and>
         context_hint None = context_hint (Some ''Other'') \<and>
         context_hint (Some []) = context_hint (Some ''Other'') \<and>
         context_hint None = Inr hint_other \<and>
         context_hint (Some []) = Inr hint_other"
proof -
  have "py_lower (py_strip (pre @ s @ post)) = py_lower (py_strip s)"
    using assms(1,2) by (simp add: py_strip_surrounded)
  also have "\<dots> = py_lower (py_strip s')"
    using assms(3) by (simp add: py_strip_lower [symmetric])
  finally have general: "context_hint (Some (pre @ s @ post)) = context_hint (Some s')"
    by (simp add: context_hint_Some_eq)
  have ex: "py_lower (py_strip ''Pond'') = ''pond''" "py_lower (py_strip ''pond'') = ''pond''"
    "py_lower (py_strip '' POND '') = ''pond''"
    by code_simp+
  show ?thesis
    using general
    by (simp add: context_hint_Some_eq context_hint_None ex normal_Nil normal_Other
        get_default_hints_cases)
qed

theorem context_hint_normalises_witness:
  "list_all py_isspace ''  '' \<and> list_all py_isspace '' '' \<and>
   py_lower ''SoIl'' = py_lower ''soil'' \<and>
   context_hint (Some (''  '' @ ''SoIl'' @ '' '')) = context_hint (Some ''soil'') \<and>
   context_hint (Some ''soil'') = Inr hint_soil"
proof -
  have a: "\<forall>c\<in>set ''  ''. py_isspace c" and b: "\<forall>c\<in>set '' ''. py_isspace c"
    by (simp_all add: py_isspace_def)
  have c: "py_lower ''SoIl'' = py_lower ''soil''"
    by code_simp
  have "py_lower (py_strip ''soil'') = ''soil''"
    by code_simp
  then have d: "context_hint (Some ''soil'') = Inr hint_soil"
    by (simp add: context_hint_Some_eq get_default_hints_cases)
  from context_hint_normalises [OF a b c] a b c d show ?thesis
    by (simp add: list_all_iff)
qed

section \<open>Properties of dictionaries\<close>

lemma map_of_setdefault:
  "map_of (setdefault d k v) k' =
     (if k' = k then (case map_of d k of None \<Rightarrow> Some v | Some x \<Rightarrow> Some x) else map_of d k')"
  by (auto simp: setdefault_def map_add_def split: option.splits)

lemma map_of_setitem: "map_of (setitem d k v) k' = (if k' = k then Some v else map_of d k')"
  by (simp add: setitem_def update_conv')

lemma setdefault_present: "map_of d k = Some x \<Longrightarrow> setdefault d k v = d"
  by (simp add: setdefault_def)

lemma setitem_twice: "setitem (setitem d k v) k v' = setitem d k v'"
  by (simp add: setitem_def)

section \<open>Properties of the identification\<close>

lemma identify_image_reply:
  "identify_image_request w g image_path sample_type = (Inr reply, g') \<Longrightarrow>
   identify_image w g image_path sample_type = (identify_image_result w reply, g')"
  by (simp add: identify_image_def)

lemma identify_image_InrD:
  assumes "identify_image w g image_path sample_type = (Inr r, g')"
  shows "\<exists>reply. identify_image_request w g image_path sample_type = (Inr reply, g') \<and>
           identify_image_result w reply = Inr r"
  using assms by (auto simp: identify_image_def split: prod.splits sum.splits)

lemma identify_image_result_InrD:
  assumes "identify_image_result w reply = Inr r"
  shows "\<exists>d. json_loads w (strip_code_fence (Some reply)) = Some (JObj d)"
  using assms
  by (auto simp: identify_image_result_def Let_def split: option.splits json.splits)

lemma confidence_after_defaults:
  "map_of (setdefault (setdefault (setdefault (setdefault d ''best_guess_name'' a)
      ''confidence'' (JInt 0)) ''description'' b) ''features_used'' c) ''confidence'' =
   Some (case map_of d ''confidence'' of None \<Rightarrow> JInt 0 | Some v \<Rightarrow> v)"
  by (simp add: map_of_setdefault split: option.splits)

lemma identify_image_result_eq:
  assumes "json_loads w (strip_code_fence (Some reply)) = Some (JObj d)"
  shows "identify_image_result w reply =
     Inr (setitem
       (setdefault (setdefault (setdefault (setdefault d ''best_guess_name'' (JStr ''Unknown''))
          ''confidence'' (JInt 0)) ''description'' (JStr [])) ''features_used'' (JStr []))
       ''confidence''
       (JInt (max 0 (min 100
         (case map_of d ''confidence'' of
            None \<Rightarrow> 0
          | Some v \<Rightarrow> (case py_int (int_of_str w) v of None \<Rightarrow> 0 | Some i \<Rightarrow> i))))))"
proof -
  have "(case map_of (setdefault (setdefault (setdefault (setdefault d ''best_guess_name''
            (JStr ''Unknown'')) ''confidence'' (JInt 0)) ''description'' (JStr []))
            ''features_used'' (JStr [])) ''confidence'' of
          None \<Rightarrow> 0
        | Some v \<Rightarrow> (case py_int (int_of_str w) v of None \<Rightarrow> 0 | Some i \<Rightarrow> i)) =
        (case map_of d ''confidence'' of
            None \<Rightarrow> 0
          | Some v \<Rightarrow> (case py_int (int_of_str w) v of None \<Rightarrow> 0 | Some i \<Rightarrow> i))"
    by (simp add: confidence_after_defaults split: option.splits)
  then show ?thesis
    using assms by (simp add: identify_image_result_def Let_def setitem_twice)
qed

lemma identify_image_result_object:
  assumes "json_loads w (strip_code_fence (Some reply)) = Some (JObj d)"
  shows "\<exists>r. identify_image_result w reply = Inr r \<and>
     map_of r ''best_guess_name'' =
       Some (case map_of d ''best_guess_name'' of None \<Rightarrow> JStr ''Unknown'' | Some v \<Rightarrow> v) \<and>
     map_of r ''confidence'' =
       Some (JInt (max 0 (min 100
         (case map_of d ''confidence'' of
            None \<Rightarrow> 0
          | Some v \<Rightarrow> (case py_int (int_of_str w) v of None \<Rightarrow> 0 | Some i \<Rightarrow> i))))) \<and>
     map_of r ''description'' =
       Some (case map_of d ''description'' of None \<Rightarrow> JStr [] | Some v \<Rightarrow> v) \<and>
     map_of r ''features_used'' =
       Some (case map_of d ''features_used'' of None \<Rightarrow> JStr [] | Some v \<Rightarrow> v) \<and>
     (\<forall>k. k \<notin> {''best_guess_name'', ''confidence'', ''description'', ''features_used''} \<longrightarrow>
        map_of r k = map_of d k)"
  unfolding identify_image_result_eq [OF assms]
  by (simp add: map_of_setdefault map_of_setitem split: option.splits)

lemma sample_request:
  "identify_image_request (sample_world reply) fresh ''frame.jpg'' (Some ''Pond'') =
     (Inr reply, ready)"
  by (simp add: identify_image_request_def get_client_def sample_world_def or_else_def
      b64_data_url_def context_hint_eq fresh_def ready_def)

section \<open>Credential resolution\<close>

text \<open>
  Claim C8. With no client built yet, \<open>get_client\<close> reads the environment variable first
  and consults the secret store (\<open>get_openai_api_key\<close>) only when the variable is unset or
  empty. It fails exactly when neither yields a credential, which is when the variable is
  unset or empty, since the secret store reads the same variable. The failure is a
  \<open>RuntimeError\<close> (the specification's \<open>ConfigurationError\<close>) and leaves the module's
  state as it was. A non-empty value of the variable is the credential of the client that
  is returned and kept.
\<close>

theorem get_client_resolution:
  assumes "client g = None"
  shows "(isl (fst (get_client w g)) \<longleftrightarrow>
            \<not> truthy (environ w ''OPENAI_API_KEY'') \<and> isl (get_openai_api_key w)) \<and>
         (isl (fst (get_client w g)) \<longleftrightarrow>
            environ w ''OPENAI_API_KEY'' = None \<or> environ w ''OPENAI_API_KEY'' = Some []) \<and>
         (\<forall>e. fst (get_client w g) = Inl e \<longrightarrow> (\<exists>m. e = RuntimeError m) \<and> snd (get_client w g) = g) \<and>
         (\<forall>k. environ w ''OPENAI_API_KEY'' = Some k \<and> k \<noteq> [] \<longrightarrow>
            get_client w g = (Inr (OpenAI k), g\<lparr>client := Some (OpenAI k)\<rparr>)) \<and>
         (\<not> truthy (environ w ''OPENAI_API_KEY'') \<longrightarrow>
            fst (get_client w g) =
              (case get_openai_api_key w of Inl e \<Rightarrow> Inl e | Inr k \<Rightarrow> Inr (OpenAI k)))"
  using assms
  by (auto simp: get_client_def get_openai_api_key_def truthy_def split: option.splits)

theorem get_client_resolution_witness:
  "client fresh = None \<and>
   environ (sample_world []) ''OPENAI_API_KEY'' = Some ''sk-test'' \<and>
   get_client (sample_world []) fresh = (Inr (OpenAI ''sk-test''), ready) \<and>
   \<not> truthy (environ unset_world ''OPENAI_API_KEY'') \<and>
   isl (get_openai_api_key unset_world) \<and>
   isl (fst (get_client unset_world fresh))"
proof -
  have a: "client fresh = None"
    by (simp add: fresh_def)
  have b: "environ (sample_world []) ''OPENAI_API_KEY'' = Some ''sk-test''"
    by (simp add: sample_world_def)
  have c: "\<not> truthy (environ unset_world ''OPENAI_API_KEY'')"
    by (simp add: unset_world_def truthy_def)
  have d: "isl (get_openai_api_key unset_world)"
    by (simp add: unset_world_def get_openai_api_key_def)
  have e: "fresh\<lparr>client := Some (OpenAI ''sk-test'')\<rparr> = ready"
    by (simp add: fresh_def ready_def)
  from get_client_resolution [OF a, of "sample_world []"] b
  have "get_client (sample_world []) fresh =
          (Inr (OpenAI ''sk-test''), fresh\<lparr>client := Some (OpenAI ''sk-test'')\<rparr>)"
    by simp
  then have f: "get_client (sample_world []) fresh = (Inr (OpenAI ''sk-test''), ready)"
    by (simp only: e)
  from get_client_resolution [OF a, of unset_world] c d
  have "isl (fst (get_client unset_world fresh))"
    by blast
  with a b c d f show ?thesis
    by simp
qed

section \<open>Capturing before a frame has arrived\<close>

text \<open>
  Claim C9, as amended. When no frame has been stored, \<open>on_capture\<close> returns normally and
  changes nothing but the status message: the image path, the list of temporary files, the
  other widgets and the disk are as before. The message is "No camera frame yet." when the
  camera is enabled and "Camera disabled." when it is not.
\<close>

theorem on_capture_without_frame:
  assumes "last_frame self = None"
  shows "\<exists>self'. on_capture tmp (self, disk) = Inr (self', disk) \<and>
           self' = self\<lparr>status_message :=
                     (if camera_enabled self then ''No camera frame yet.''
                      else ''Camera disabled.'')\<rparr> \<and>
           current_image_path self' = current_image_path self \<and>
           temp_files self' = temp_files self \<and>
           last_frame self' = None"
  using assms by (simp add: on_capture_def)

theorem on_capture_without_frame_witness:
  "last_frame (idle_window True) = None \<and>
   on_capture (Inr ''/tmp/tmpq1.jpg'') (idle_window True, empty_disk) =
     Inr ((idle_window True)\<lparr>status_message := ''No camera frame yet.''\<rparr>, empty_disk)"
proof -
  have a: "last_frame (idle_window True) = None" and b: "camera_enabled (idle_window True)"
    by (simp_all add: idle_window_def)
  from on_capture_without_frame [OF a, of "Inr ''/tmp/tmpq1.jpg''" empty_disk] a b
  show ?thesis
    by simp
qed

text \<open>
  As stated, the claim promises the "no frame" message for every window without a stored
  frame. With the camera disabled the first guard of \<open>on_capture\<close> answers instead.
\<close>

theorem on_capture_disabled_counterexample:
  "last_frame (idle_window False) = None \<and>
   on_capture (Inr ''/tmp/tmpq1.jpg'') (idle_window False, empty_disk) =
     Inr ((idle_window False)\<lparr>status_message := ''Camera disabled.''\<rparr>, empty_disk) \<and>
   ''Camera disabled.'' \<noteq> ''No camera frame yet.''"
  by (simp add: on_capture_def idle_window_def)

section \<open>Fence stripping\<close>

lemma py_lstrip_id: "s \<noteq> [] \<Longrightarrow> \<not> py_isspace (hd s) \<Longrightarrow> py_lstrip s = s"
  by (cases s) (simp_all add: py_lstrip_def)

lemma py_rstrip_id: "s \<noteq> [] \<Longrightarrow> \<not> py_isspace (last s) \<Longrightarrow> py_rstrip s = s"
proof -
  assume "s \<noteq> []" and "\<not> py_isspace (last s)"
  then have "rev s \<noteq> []" and "\<not> py_isspace (hd (rev s))"
    by (simp_all add: hd_rev)
  then have "dropWhile py_isspace (rev s) = rev s"
    by (cases "rev s") simp_all
  then show ?thesis
    by (simp add: py_rstrip_def)
qed

lemma backtick_not_space: "\<not> py_isspace (CHR ''`'')"
  by (simp add: py_isspace_def)

lemma strip_code_fence_steps:
  assumes "py_strip (or_else text []) = t" and "startswith t ''```''"
    and "CHR 0x0A \<in> set t" and "tl (dropWhile (\<lambda>c. c \<noteq> CHR 0x0A) t) = t1"
    and "py_rstrip t1 = r" and "endswith r ''```''" and "take (length r - 3) r = t2"
  shows "strip_code_fence text =
     (if startswith (py_lower (py_strip t2)) ''json''
      then py_lstrip (drop 4 (py_strip t2)) else py_strip t2)"
  using assms by (simp add: strip_code_fence_def Let_def)

lemma strip_code_fence_block:
  assumes pre: "\<forall>c\<in>set pre. py_isspace c" and post: "\<forall>c\<in>set post. py_isspace c"
    and tag: "CHR 0x0A \<notin> set tag"
  shows "strip_code_fence (Some (pre @ ''```'' @ tag @ [CHR 0x0A] @ body @ ''```'' @ post)) =
     (if startswith (py_lower (py_strip body)) ''json''
      then py_lstrip (drop 4 (py_strip body)) else py_strip body)"
proof -
  define t where "t = ''```'' @ tag @ [CHR 0x0A] @ body @ ''```''"
  have shape: "pre @ ''```'' @ tag @ [CHR 0x0A] @ body @ ''```'' @ post = pre @ t @ post"
    by (simp add: t_def)
  have nonempty: "t \<noteq> []"
    by (simp add: t_def)
  have "py_strip (pre @ t @ post) = py_strip t"
    using pre post by (rule py_strip_surrounded)
  moreover have "py_lstrip t = t"
    by (rule py_lstrip_id) (simp_all add: t_def backtick_not_space)
  moreover have "py_rstrip t = t"
    by (rule py_rstrip_id) (simp_all add: t_def backtick_not_space)
  ultimately have "py_strip (pre @ t @ post) = t"
    by (simp add: py_strip_def)
  then have a: "py_strip (or_else (Some (pre @ t @ post)) []) = t"
    using nonempty by (auto simp: or_else_def)
  have b: "startswith t ''```''"
    by (simp add: startswith_def t_def)
  have c: "CHR 0x0A \<in> set t"
    by (simp add: t_def)
  have "dropWhile (\<lambda>c. c \<noteq> CHR 0x0A) t = [CHR 0x0A] @ body @ ''```''"
    using tag by (auto simp: t_def dropWhile_append3)
  then have d: "tl (dropWhile (\<lambda>c. c \<noteq> CHR 0x0A) t) = body @ ''```''"
    by simp
  have e: "py_rstrip (body @ ''```'') = body @ ''```''"
    by (rule py_rstrip_id) (simp_all add: backtick_not_space)
  have f: "endswith (body @ ''```'') ''```''"
    by (simp add: endswith_def)
  have g: "take (length (body @ ''```'') - 3) (body @ ''```'') = body"
    by simp
  show ?thesis
    unfolding shape by (rule strip_code_fence_steps [OF a b c d e f g])
qed

text \<open>
  Claim C4, as amended. Take a reply made of an opening fence line (three backticks, an
  optional language tag such as \<open>json\<close>, a newline), a JSON text \<open>J\<close> with optional
  whitespace around it, and three closing backticks, the whole possibly surrounded by
  whitespace. Fence stripping returns exactly \<open>J\<close>, so what the decoder accepted as \<open>J\<close>
  it accepts after stripping, with the same value. \<open>J\<close> is given without surrounding
  whitespace and, as every JSON text, does not begin with the letters \<open>json\<close>.
\<close>

theorem strip_code_fence_fenced_json:
  assumes "\<forall>c\<in>set pre. py_isspace c" and "\<forall>c\<in>set post. py_isspace c"
    and "CHR 0x0A \<notin> set tag"
    and "\<forall>c\<in>set ws1. py_isspace c" and "\<forall>c\<in>set ws2. py_isspace c"
    and "py_strip J = J" and "\<not> startswith (py_lower J) ''json''"
    and "json_loads w J = Some v"
  shows "strip_code_fence
           (Some (pre @ ''```'' @ tag @ [CHR 0x0A] @ (ws1 @ J @ ws2) @ ''```'' @ post)) = J \<and>
         json_loads w (strip_code_fence
           (Some (pre @ ''```'' @ tag @ [CHR 0x0A] @ (ws1 @ J @ ws2) @ ''```'' @ post))) = Some v"
proof -
  have "py_strip (ws1 @ J @ ws2) = J"
    using assms(4,5,6) by (simp add: py_strip_surrounded)
  then have "strip_code_fence
      (Some (pre @ ''```'' @ tag @ [CHR 0x0A] @ (ws1 @ J @ ws2) @ ''```'' @ post)) = J"
    using assms(7) by (simp only: strip_code_fence_block [OF assms(1,2,3)] if_False)
  then show ?thesis
    using assms(8) by simp
qed

theorem strip_code_fence_fenced_json_witness:
  "reply_ninety_fenced =
     [] @ ''```'' @ ''json'' @ [CHR 0x0A] @ ([] @ text_ninety @ ''\<newline>'') @ ''```'' @ ''\<newline>'' \<and>
   py_strip text_ninety = text_ninety \<and>
   \<not> startswith (py_lower text_ninety) ''json'' \<and>
   json_loads (sample_world reply_ninety_fenced) text_ninety =
     Some (JObj [(''confidence'', JInt 90)]) \<and>
   strip_code_fence (Some reply_ninety_fenced) = text_ninety \<and>
   json_loads (sample_world reply_ninety_fenced) (strip_code_fence (Some reply_ninety_fenced)) =
     Some (JObj [(''confidence'', JInt 90)])"
proof -
  have shape: "reply_ninety_fenced =
     [] @ ''```'' @ ''json'' @ [CHR 0x0A] @ ([] @ text_ninety @ ''\<newline>'') @ ''```'' @ ''\<newline>''"
    by (simp add: reply_ninety_fenced_def text_ninety_def)
  have a: "\<forall>c\<in>set []. py_isspace c" and b: "\<forall>c\<in>set ''\<newline>''. py_isspace c"
    by (simp_all add: py_isspace_def)
  have c: "CHR 0x0A \<notin> set ''json''"
    by simp
  have d: "py_strip text_ninety = text_ninety"
    by code_simp
  have e: "\<not> startswith (py_lower text_ninety) ''json''"
    by code_simp
  have f: "json_loads (sample_world reply_ninety_fenced) text_ninety =
     Some (JObj [(''confidence'', JInt 90)])"
    by code_simp
  from strip_code_fence_fenced_json [OF a b c a b d e f] shape d e f show ?thesis
    by simp
qed

text \<open>
  As stated, the claim covers a fence written on one line. Fence stripping removes the
  whole first line of a fenced reply, so of such a reply nothing is left: the inner text is
  valid JSON, the stripped text is empty and is not.
\<close>

theorem strip_code_fence_inline_counterexample:
  "reply_ninety_inline = ''```'' @ ''json'' @ '' '' @ text_ninety @ '' '' @ ''```'' \<and>
   json_loads (sample_world reply_ninety_inline) text_ninety =
     Some (JObj [(''confidence'', JInt 90)]) \<and>
   strip_code_fence (Some reply_ninety_inline) = [] \<and>
   json_loads (sample_world reply_ninety_inline) (strip_code_fence (Some reply_ninety_inline)) =
     None \<and>
   identify_image (sample_world reply_ninety_inline) fresh ''frame.jpg'' (Some ''Pond'') =
     (Inl (ValueError ''Model did not return JSON. Got:\<newline>''), ready)"
  by code_simp

section \<open>The result of an identification\<close>

text \<open>
  Claim C6. The reply of the specification's example, a fenced object naming a rotifer with
  confidence 150, requested for sample type \<open>Pond\<close>, gives exactly the record with name
  \<open>Rotifer\<close>, confidence 100, and empty description and features. The hypotheses say
  that the remote call returned this reply and what \<open>json.loads\<close> returns on the text
  between the fences.
\<close>

theorem identify_image_rotifer:
  assumes "identify_image_request w g image_path (Some ''Pond'') = (Inr reply_rotifer, g')"
    and "json_loads w text_rotifer =
           Some (JObj [(''best_guess_name'', JStr ''Rotifer''), (''confidence'', JInt 150)])"
  shows "strip_code_fence (Some reply_rotifer) = text_rotifer \<and>
         identify_image w g image_path (Some ''Pond'') =
           (Inr [(''best_guess_name'', JStr ''Rotifer''), (''confidence'', JInt 100),
                 (''description'', JStr []), (''features_used'', JStr [])], g')"
proof -
  have strip: "strip_code_fence (Some reply_rotifer) = text_rotifer"
    by code_simp
  with assms(2) have "json_loads w (strip_code_fence (Some reply_rotifer)) =
      Some (JObj [(''best_guess_name'', JStr ''Rotifer''), (''confidence'', JInt 150)])"
    by simp
  then have "identify_image_result w reply_rotifer =
      Inr [(''best_guess_name'', JStr ''Rotifer''), (''confidence'', JInt 100),
           (''description'', JStr []), (''features_used'', JStr [])]"
    by (simp add: identify_image_result_eq setdefault_def setitem_def)
  with strip identify_image_reply [OF assms(1)] show ?thesis
    by simp
qed

theorem identify_image_rotifer_witness:
  "identify_image_request (sample_world reply_rotifer) fresh ''frame.jpg'' (Some ''Pond'') =
     (Inr reply_rotifer, ready) \<and>
   json_loads (sample_world reply_rotifer) text_rotifer =
     Some (JObj [(''best_guess_name'', JStr ''Rotifer''), (''confidence'', JInt 150)]) \<and>
   identify_image (sample_world reply_rotifer) fresh ''frame.jpg'' (Some ''Pond'') =
     (Inr [(''best_guess_name'', JStr ''Rotifer''), (''confidence'', JInt 100),
           (''description'', JStr []), (''features_used'', JStr [])], ready)"
proof -
  have a: "identify_image_request (sample_world reply_rotifer) fresh ''frame.jpg'' (Some ''Pond'') =
     (Inr reply_rotifer, ready)"
    by (rule sample_request)
  have b: "json_loads (sample_world reply_rotifer) text_rotifer =
     Some (JObj [(''best_guess_name'', JStr ''Rotifer''), (''confidence'', JInt 150)])"
    by code_simp
  from identify_image_rotifer [OF a b] a b show ?thesis
    by simp
qed

text \<open>
  Claim C1, as amended. When the decoded object has all four keys, the result is that
  object with only the confidence replaced: name, description and features are unchanged,
  and the confidence is converted with \<open>int\<close> (0 when the conversion raises) and then
  clamped into 0 to 100. A confidence that is already an integer is only clamped.
\<close>

theorem identify_image_all_fields:
  assumes "identify_image_request w g image_path sample_type = (Inr reply, g')"
    and "json_loads w (strip_code_fence (Some reply)) = Some (JObj d)"
    and "map_of d ''best_guess_name'' = Some name"
    and "map_of d ''confidence'' = Some c"
    and "map_of d ''description'' = Some descr"
    and "map_of d ''features_used'' = Some feat"
  shows "\<exists>r. identify_image w g image_path sample_type = (Inr r, g') \<and>
           r = setitem d ''confidence''
                 (JInt (max 0 (min 100
                    (case py_int (int_of_str w) c of None \<Rightarrow> 0 | Some i \<Rightarrow> i)))) \<and>
           map_of r ''best_guess_name'' = Some name \<and>
           map_of r ''description'' = Some descr \<and>
           map_of r ''features_used'' = Some feat \<and>
           map_of r ''confidence'' =
             Some (JInt (max 0 (min 100
                (case py_int (int_of_str w) c of None \<Rightarrow> 0 | Some i \<Rightarrow> i)))) \<and>
           (\<forall>n. c = JInt n \<longrightarrow> map_of r ''confidence'' = Some (JInt (max 0 (min 100 n))))"
proof -
  have "identify_image_result w reply =
      Inr (setitem d ''confidence''
        (JInt (max 0 (min 100 (case py_int (int_of_str w) c of None \<Rightarrow> 0 | Some i \<Rightarrow> i)))))"
    using assms(3-6)
    by (simp add: identify_image_result_eq [OF assms(2)] setdefault_present)
  with identify_image_reply [OF assms(1)] assms(3-6) show ?thesis
    by (auto simp: map_of_setitem)
qed

theorem identify_image_all_fields_witness:
  "identify_image_request (sample_world text_paramecium) fresh ''frame.jpg'' (Some ''Pond'') =
     (Inr text_paramecium, ready) \<and>
   json_loads (sample_world text_paramecium) (strip_code_fence (Some text_paramecium)) =
     Some (JObj [(''best_guess_name'', JStr ''Paramecium''),
                 (''confidence'', JFloat (Finite (171 / 2))),
                 (''description'', JStr ''ciliate''),
                 (''features_used'', JStr ''cilia'')]) \<and>
   identify_image (sample_world text_paramecium) fresh ''frame.jpg'' (Some ''Pond'') =
     (Inr (setitem [(''best_guess_name'', JStr ''Paramecium''),
                    (''confidence'', JFloat (Finite (171 / 2))),
                    (''description'', JStr ''ciliate''),
                    (''features_used'', JStr ''cilia'')] ''confidence'' (JInt 85)), ready)"
proof -
  have a: "identify_image_request (sample_world text_paramecium) fresh ''frame.jpg''
      (Some ''Pond'') = (Inr text_paramecium, ready)"
    by (rule sample_request)
  have b: "json_loads (sample_world text_paramecium) (strip_code_fence (Some text_paramecium)) =
     Some (JObj [(''best_guess_name'', JStr ''Paramecium''),
                 (''confidence'', JFloat (Finite (171 / 2))),
                 (''description'', JStr ''ciliate''),
                 (''features_used'', JStr ''cilia'')])"
    by code_simp
  have c: "max 0 (min 100 (case py_int (int_of_str (sample_world text_paramecium))
      (JFloat (Finite (171 / 2))) of None \<Rightarrow> 0 | Some i \<Rightarrow> i)) = 85"
    by code_simp
  from identify_image_all_fields [OF a b, of "JStr ''Paramecium''" "JFloat (Finite (171 / 2))"
      "JStr ''ciliate''" "JStr ''cilia''"] a b c
  show ?thesis
    by simp
qed

text \<open>
  As stated, the claim leaves the confidence unchanged but for the clamp. A reply with all
  four keys and confidence 85.5 comes back with confidence 85: the value is converted to
  an integer before it is clamped.
\<close>

theorem identify_image_fraction_counterexample:
  "json_loads (sample_world text_paramecium) (strip_code_fence (Some text_paramecium)) =
     Some (JObj [(''best_guess_name'', JStr ''Paramecium''),
                 (''confidence'', JFloat (Finite (171 / 2))),
                 (''description'', JStr ''ciliate''),
                 (''features_used'', JStr ''cilia'')]) \<and>
   identify_image (sample_world text_paramecium) fresh ''frame.jpg'' (Some ''Pond'') =
     (Inr [(''best_guess_name'', JStr ''Paramecium''),
           (''confidence'', JInt 85),
           (''description'', JStr ''ciliate''),
           (''features_used'', JStr ''cilia'')], ready)"
  by code_simp

text \<open>
  Claim C2. When the decoded object lacks some of the four keys, the result has the default
  (\<open>Unknown\<close>, 0, the empty string, the empty string) for exactly the keys that are
  missing; a key that is present keeps its value (the confidence after conversion and
  clamp), and keys other than the four are untouched. Every result \<open>identify_image\<close>
  returns, in any world, has all four keys, with an integer confidence from 0 to 100.
\<close>

theorem identify_image_defaults:
  "(identify_image_request w g image_path sample_type = (Inr reply, g') \<and>
    json_loads w (strip_code_fence (Some reply)) = Some (JObj d) \<longrightarrow>
      (\<exists>r. identify_image w g image_path sample_type = (Inr r, g') \<and>
         map_of r ''best_guess_name'' =
           Some (case map_of d ''best_guess_name'' of None \<Rightarrow> JStr ''Unknown'' | Some v \<Rightarrow> v) \<and>
         map_of r ''confidence'' =
           Some (JInt (max 0 (min 100
             (case map_of d ''confidence'' of
                None \<Rightarrow> 0
              | Some v \<Rightarrow> (case py_int (int_of_str w) v of None \<Rightarrow> 0 | Some i \<Rightarrow> i))))) \<and>
         map_of r ''description'' =
           Some (case map_of d ''description'' of None \<Rightarrow> JStr [] | Some v \<Rightarrow> v) \<and>
         map_of r ''features_used'' =
           Some (case map_of d ''features_used'' of None \<Rightarrow> JStr [] | Some v \<Rightarrow> v) \<and>
         (\<forall>k. k \<notin> {''best_guess_name'', ''confidence'', ''description'', ''features_used''} \<longrightarrow>
            map_of r k = map_of d k))) \<and>
   (\<forall>r g''. identify_image w g image_path sample_type = (Inr r, g'') \<longrightarrow>
      (\<exists>name n descr feat.
         map_of r ''best_guess_name'' = Some name \<and>
         map_of r ''confidence'' = Some (JInt n) \<and> 0 \<le> n \<and> n \<le> 100 \<and>
         map_of r ''description'' = Some descr \<and>
         map_of r ''features_used'' = Some feat))"
proof (intro conjI impI allI)
  assume a: "identify_image_request w g image_path sample_type = (Inr reply, g') \<and>
    json_loads w (strip_code_fence (Some reply)) = Some (JObj d)"
  then have "identify_image w g image_path sample_type = (identify_image_result w reply, g')"
    by (simp add: identify_image_reply)
  with identify_image_result_object [of w reply d] a
  show "\<exists>r. identify_image w g image_path sample_type = (Inr r, g') \<and>
         map_of r ''best_guess_name'' =
           Some (case map_of d ''best_guess_name'' of None \<Rightarrow> JStr ''Unknown'' | Some v \<Rightarrow> v) \<and>
         map_of r ''confidence'' =
           Some (JInt (max 0 (min 100
             (case map_of d ''confidence'' of
                None \<Rightarrow> 0
              | Some v \<Rightarrow> (case py_int (int_of_str w) v of None \<Rightarrow> 0 | Some i \<Rightarrow> i))))) \<and>
         map_of r ''description'' =
           Some (case map_of d ''description'' of None \<Rightarrow> JStr [] | Some v \<Rightarrow> v) \<and>
         map_of r ''features_used'' =
           Some (case map_of d ''features_used'' of None \<Rightarrow> JStr [] | Some v \<Rightarrow> v) \<and>
         (\<forall>k. k \<notin> {''best_guess_name'', ''confidence'', ''description'', ''features_used''} \<longrightarrow>
            map_of r k = map_of d k)"
    by (elim conjE exE) simp
next
  fix r g''
  assume "identify_image w g image_path sample_type = (Inr r, g'')"
  then obtain reply where res: "identify_image_result w reply = Inr r"
    using identify_image_InrD by blast
  then obtain d where d: "json_loads w (strip_code_fence (Some reply)) = Some (JObj d)"
    using identify_image_result_InrD by blast
  from identify_image_result_object [OF d] res
  show "\<exists>name n descr feat.
         map_of r ''best_guess_name'' = Some name \<and>
         map_of r ''confidence'' = Some (JInt n) \<and> 0 \<le> n \<and> n \<le> 100 \<and>
         map_of r ''description'' = Some descr \<and>
         map_of r ''features_used'' = Some feat"
    by (elim conjE exE) simp
qed

theorem identify_image_defaults_witness:
  "identify_image_request (sample_world text_diatom) fresh ''frame.jpg'' (Some ''Pond'') =
     (Inr text_diatom, ready) \<and>
   json_loads (sample_world text_diatom) (strip_code_fence (Some text_diatom)) =
     Some (JObj [(''best_guess_name'', JStr ''Diatom''), (''features_used'', JNull)]) \<and>
   identify_image (sample_world text_diatom) fresh ''frame.jpg'' (Some ''Pond'') =
     (Inr [(''best_guess_name'', JStr ''Diatom''), (''features_used'', JNull),
           (''confidence'', JInt 0), (''description'', JStr [])], ready) \<and>
   (\<exists>r. identify_image (sample_world text_diatom) fresh ''frame.jpg'' (Some ''Pond'') =
          (Inr r, ready) \<and>
        map_of r ''best_guess_name'' = Some (JStr ''Diatom'') \<and>
        map_of r ''confidence'' = Some (JInt 0) \<and>
        map_of r ''description'' = Some (JStr []) \<and>
        map_of r ''features_used'' = Some JNull)"
proof -
  have a: "identify_image_request (sample_world text_diatom) fresh ''frame.jpg'' (Some ''Pond'') =
     (Inr text_diatom, ready)"
    by (rule sample_request)
  have b: "json_loads (sample_world text_diatom) (strip_code_fence (Some text_diatom)) =
     Some (JObj [(''best_guess_name'', JStr ''Diatom''), (''features_used'', JNull)])"
    by code_simp
  have c: "identify_image (sample_world text_diatom) fresh ''frame.jpg'' (Some ''Pond'') =
     (Inr [(''best_guess_name'', JStr ''Diatom''), (''features_used'', JNull),
           (''confidence'', JInt 0), (''description'', JStr [])], ready)"
    by code_simp
  from identify_image_defaults [of "sample_world text_diatom" fresh "''frame.jpg''"
      "Some ''Pond''" text_diatom ready
      "[(''best_guess_name'', JStr ''Diatom''), (''features_used'', JNull)]"] a b
  have "\<exists>r. identify_image (sample_world text_diatom) fresh ''frame.jpg'' (Some ''Pond'') =
          (Inr r, ready) \<and>
        map_of r ''best_guess_name'' = Some (JStr ''Diatom'') \<and>
        map_of r ''confidence'' = Some (JInt 0) \<and>
        map_of r ''description'' = Some (JStr []) \<and>
        map_of r ''features_used'' = Some JNull"
    by auto
  with a b c show ?thesis
    by simp
qed

text \<open>
  Claim C3, as amended. When the stripped reply does not decode, or decodes to a value that
  is not an object, \<open>identify_image\<close> fails with a \<open>ValueError\<close> (the specification's
  \<open>ResponseFormatError\<close>) whose message ends with the stripped text, the text that was
  handed to the decoder; no result is returned.
\<close>

theorem identify_image_rejects:
  assumes "identify_image_request w g image_path sample_type = (Inr reply, g')"
  shows "(json_loads w (strip_code_fence (Some reply)) = None \<longrightarrow>
            identify_image w g image_path sample_type =
              (Inl (ValueError (''Model did not return JSON. Got:\<newline>'' @
                                strip_code_fence (Some reply))), g')) \<and>
         (\<forall>v. json_loads w (strip_code_fence (Some reply)) = Some v \<and> (\<forall>d. v \<noteq> JObj d) \<longrightarrow>
            identify_image w g image_path sample_type =
              (Inl (ValueError (''Model returned non-dict JSON. Got:\<newline>'' @
                                strip_code_fence (Some reply))), g'))"
proof (intro conjI impI allI)
  assume "json_loads w (strip_code_fence (Some reply)) = None"
  then have "identify_image_result w reply =
      Inl (ValueError (''Model did not return JSON. Got:\<newline>'' @ strip_code_fence (Some reply)))"
    by (simp add: identify_image_result_def Let_def)
  with identify_image_reply [OF assms]
  show "identify_image w g image_path sample_type =
      (Inl (ValueError (''Model did not return JSON. Got:\<newline>'' @
                        strip_code_fence (Some reply))), g')"
    by simp
next
  fix v
  assume "json_loads w (strip_code_fence (Some reply)) = Some v \<and> (\<forall>d. v \<noteq> JObj d)"
  then have "identify_image_result w reply =
      Inl (ValueError (''Model returned non-dict JSON. Got:\<newline>'' @
                       strip_code_fence (Some reply)))"
    by (cases v) (simp_all add: identify_image_result_def Let_def)
  with identify_image_reply [OF assms]
  show "identify_image w g image_path sample_type =
      (Inl (ValueError (''Model returned non-dict JSON. Got:\<newline>'' @
                        strip_code_fence (Some reply))), g')"
    by simp
qed

theorem identify_image_rejects_witness:
  "identify_image_request (sample_world reply_refusal) fresh ''frame.jpg'' (Some ''Pond'') =
     (Inr reply_refusal, ready) \<and>
   strip_code_fence (Some reply_refusal) = ''I cannot identify this image.'' \<and>
   json_loads (sample_world reply_refusal) (strip_code_fence (Some reply_refusal)) = None \<and>
   identify_image (sample_world reply_refusal) fresh ''frame.jpg'' (Some ''Pond'') =
     (Inl (ValueError (''Model did not return JSON. Got:\<newline>'' @
                       ''I cannot identify this image.'')), ready) \<and>
   identify_image_request (sample_world text_list) fresh ''frame.jpg'' (Some ''Pond'') =
     (Inr text_list, ready) \<and>
   json_loads (sample_world text_list) (strip_code_fence (Some text_list)) =
     Some (JArr [JStr ''Rotifer'', JInt 90]) \<and>
   identify_image (sample_world text_list) fresh ''frame.jpg'' (Some ''Pond'') =
     (Inl (ValueError (''Model returned non-dict JSON. Got:\<newline>'' @ text_list)), ready)"
proof -
  have a: "identify_image_request (sample_world reply_refusal) fresh ''frame.jpg''
      (Some ''Pond'') = (Inr reply_refusal, ready)"
    by (rule sample_request)
  have b: "strip_code_fence (Some reply_refusal) = ''I cannot identify this image.''"
    by code_simp
  have c: "json_loads (sample_world reply_refusal) (strip_code_fence (Some reply_refusal)) = None"
    by code_simp
  have d: "identify_image_request (sample_world text_list) fresh ''frame.jpg'' (Some ''Pond'') =
     (Inr text_list, ready)"
    by (rule sample_request)
  have e: "strip_code_fence (Some text_list) = text_list"
    by code_simp
  have f: "json_loads (sample_world text_list) (strip_code_fence (Some text_list)) =
     Some (JArr [JStr ''Rotifer'', JInt 90])"
    by code_simp
  from identify_image_rejects [OF a] b c
  have g: "identify_image (sample_world reply_refusal) fresh ''frame.jpg'' (Some ''Pond'') =
     (Inl (ValueError (''Model did not return JSON. Got:\<newline>'' @
                       ''I cannot identify this image.'')), ready)"
    by simp
  from identify_image_rejects [OF d] e f
  have h: "identify_image (sample_world text_list) fresh ''frame.jpg'' (Some ''Pond'') =
     (Inl (ValueError (''Model returned non-dict JSON. Got:\<newline>'' @ text_list)), ready)"
    by simp
  from a b c d f g h show ?thesis
    by simp
qed

text \<open>
  As stated, the claim has the error carry the raw reply. The message is built from the
  stripped text: for a fenced reply that is not JSON, the fences of the reply are not in
  the message, and the reply is no part of it.
\<close>

theorem identify_image_raw_text_counterexample:
  "identify_image (sample_world reply_refusal) fresh ''frame.jpg'' (Some ''Pond'') =
     (Inl (ValueError ''Model did not return JSON. Got:\<newline>I cannot identify this image.''),
      ready) \<and>
   \<not> sublist reply_refusal ''Model did not return JSON. Got:\<newline>I cannot identify this image.''"
  by code_simp

text \<open>
  Claim C5, as amended. For every reply that decodes to an object, the confidence of the
  result is an integer from 0 to 100. A missing confidence is 0. A present one is converted
  with \<open>int\<close>: an integer is kept, a float is truncated toward zero, and a value \<open>int\<close>
  rejects becomes 0. The integer is then clamped, so that -5 gives 0 and 150 gives 100.
\<close>

theorem identify_image_confidence:
  assumes "identify_image_request w g image_path sample_type = (Inr reply, g')"
    and "json_loads w (strip_code_fence (Some reply)) = Some (JObj d)"
  shows "\<exists>r n. identify_image w g image_path sample_type = (Inr r, g') \<and>
           map_of r ''confidence'' = Some (JInt n) \<and> 0 \<le> n \<and> n \<le> 100 \<and>
           n = (case map_of d ''confidence'' of
                  None \<Rightarrow> 0
                | Some v \<Rightarrow>
                    (case py_int (int_of_str w) v of
                       None \<Rightarrow> 0
                     | Some i \<Rightarrow> if i < 0 then 0 else if 100 < i then 100 else i)) \<and>
           (\<forall>i. map_of d ''confidence'' = Some (JInt i) \<longrightarrow>
              n = (if i < 0 then 0 else if 100 < i then 100 else i)) \<and>
           (map_of d ''confidence'' = Some (JInt (- 5)) \<longrightarrow> n = 0) \<and>
           (map_of d ''confidence'' = Some (JInt 150) \<longrightarrow> n = 100) \<and>
           (\<forall>q. map_of d ''confidence'' = Some (JFloat (Finite q)) \<longrightarrow>
              n = max 0 (min 100 (if 0 \<le> q then \<lfloor>q\<rfloor> else \<lceil>q\<rceil>))) \<and>
           (\<forall>v. map_of d ''confidence'' = Some v \<and> py_int (int_of_str w) v = None \<longrightarrow> n = 0)"
proof -
  define n where "n = max 0 (min 100
     (case map_of d ''confidence'' of
        None \<Rightarrow> 0
      | Some v \<Rightarrow> (case py_int (int_of_str w) v of None \<Rightarrow> (0::int) | Some i \<Rightarrow> i)))"
  from identify_image_result_object [OF assms(2)] identify_image_reply [OF assms(1)]
  obtain r where r: "identify_image w g image_path sample_type = (Inr r, g')"
    and c: "map_of r ''confidence'' = Some (JInt n)"
    unfolding n_def by auto
  have range: "0 \<le> n" "n \<le> 100"
    by (simp_all add: n_def)
  have eq: "n = (case map_of d ''confidence'' of
                  None \<Rightarrow> 0
                | Some v \<Rightarrow>
                    (case py_int (int_of_str w) v of
                       None \<Rightarrow> 0
                     | Some i \<Rightarrow> if i < 0 then 0 else if 100 < i then 100 else i))"
    by (simp add: n_def split: option.splits)
  have ints: "\<forall>i. map_of d ''confidence'' = Some (JInt i) \<longrightarrow>
              n = (if i < 0 then 0 else if 100 < i then 100 else i)"
    by (simp add: eq)
  have floats: "\<forall>q. map_of d ''confidence'' = Some (JFloat (Finite q)) \<longrightarrow>
              n = max 0 (min 100 (if 0 \<le> q then \<lfloor>q\<rfloor> else \<lceil>q\<rceil>))"
    by (simp add: n_def)
  have fails: "\<forall>v. map_of d ''confidence'' = Some v \<and> py_int (int_of_str w) v = None \<longrightarrow> n = 0"
    by (simp add: eq)
  from ints have examples: "map_of d ''confidence'' = Some (JInt (- 5)) \<longrightarrow> n = 0"
    "map_of d ''confidence'' = Some (JInt 150) \<longrightarrow> n = 100"
    by simp_all
  from r c range eq ints examples floats fails show ?thesis
    by blast
qed

theorem identify_image_confidence_witness:
  "identify_image_request (sample_world text_negative) fresh ''frame.jpg'' (Some ''Pond'') =
     (Inr text_negative, ready) \<and>
   json_loads (sample_world text_negative) (strip_code_fence (Some text_negative)) =
     Some (JObj [(''confidence'', JInt (- 5))]) \<and>
   (\<exists>r. identify_image (sample_world text_negative) fresh ''frame.jpg'' (Some ''Pond'') =
          (Inr r, ready) \<and>
        map_of r ''confidence'' = Some (JInt 0))"
proof -
  have a: "identify_image_request (sample_world text_negative) fresh ''frame.jpg''
      (Some ''Pond'') = (Inr text_negative, ready)"
    by (rule sample_request)
  have b: "json_loads (sample_world text_negative) (strip_code_fence (Some text_negative)) =
     Some (JObj [(''confidence'', JInt (- 5))])"
    by code_simp
  from identify_image_confidence [OF a b]
  have "\<exists>r. identify_image (sample_world text_negative) fresh ''frame.jpg'' (Some ''Pond'') =
          (Inr r, ready) \<and>
        map_of r ''confidence'' = Some (JInt 0)"
    by auto
  with a b show ?thesis
    by simp
qed

text \<open>
  As stated, the claim sends every confidence that is not an integer to 0. A reply with
  confidence 42.5 comes back with confidence 42: \<open>int\<close> accepts a float and truncates it.
\<close>

theorem identify_image_truncation_counterexample:
  "json_loads (sample_world text_amoeba) (strip_code_fence (Some text_amoeba)) =
     Some (JObj [(''best_guess_name'', JStr ''Amoeba''),
                 (''confidence'', JFloat (Finite (85 / 2)))]) \<and>
   identify_image (sample_world text_amoeba) fresh ''frame.jpg'' (Some ''Pond'') =
     (Inr [(''best_guess_name'', JStr ''Amoeba''), (''confidence'', JInt 42),
           (''description'', JStr []), (''features_used'', JStr [])], ready)"
  by code_simp


end
